theory Spec2Isabelle
  imports Complex_Main "HOL-Library.AList"
begin

section \<open>The generic wrapper \<open>gsync.Map\<close> around Go's \<open>sync.Map\<close>\<close>

text \<open>
  \<open>map.go\<close> declares \<open>Map[K comparable, V any]\<close>, a struct whose only field \<open>data\<close> is a
  \<open>sync.Map\<close>. Every method forwards to \<open>data\<close> and converts between the static types
  \<open>K\<close>, \<open>V\<close> and the dynamic type \<open>any\<close> that \<open>sync.Map\<close> works with.

  What the model covers.
  \<^item> \<open>K\<close> and \<open>V\<close> may be interface types: the nil value of an interface type converts to
    the nil interface value of \<open>any\<close>, on which every type assertion panics.
  \<^item> Keys and values are compared with Go's \<open>==\<close>, under which a floating-point NaN (or a
    value containing one) is not equal to itself, and which panics on two values of the
    same uncomparable dynamic type.

  What it leaves out.
  \<^item> Calls are sequential: one caller, no interleaving.
  \<^item> Keys have comparable dynamic types, as the constraint \<open>K comparable\<close> asks: hashing a
    key never panics.
  \<^item> Callbacks handed to the map (\<open>f\<close> of \<open>Compute\<close>) are pure, total functions.
\<close>

subsection \<open>Dynamic values, conversions and comparisons\<close>

text \<open>
  A value of type \<open>any\<close>: the nil interface value, or a boxed non-nil value of the static
  type.
\<close>

datatype 'a any = Nil | Boxed 'a

text \<open>The run-time panics: a failed type assertion, a comparison of uncomparable values.\<close>

datatype panic = NilInterfaceConversion | UncomparableType

text \<open>
  What the model needs to know of the type arguments of an instantiation \<open>Map[K, V]\<close>:
  \<^item> \<open>nilK k\<close>, \<open>nilV v\<close>: the type is an interface type and the value is its nil value
    (constantly false for a non-interface type);
  \<^item> \<open>nanK k\<close>, \<open>nanV v\<close>: the value is not equal to itself under \<open>==\<close> (a NaN, or a
    struct, array or interface value holding one); all other values are equal under \<open>==\<close>
    exactly when they are the same value;
  \<^item> \<open>uncomparableV v w\<close>: \<open>v\<close> and \<open>w\<close> have the same dynamic type and that type is not
    comparable, so that \<open>v == w\<close> panics;
  \<^item> \<open>zeroV\<close>: the zero value of \<open>V\<close>.
\<close>

record ('k, 'v) type_args =
  nilK :: "'k \<Rightarrow> bool"
  nanK :: "'k \<Rightarrow> bool"
  nilV :: "'v \<Rightarrow> bool"
  nanV :: "'v \<Rightarrow> bool"
  uncomparableV :: "'v \<Rightarrow> 'v \<Rightarrow> bool"
  zeroV :: 'v

text \<open>The implicit conversion of a value of a static type to \<open>any\<close>.\<close>

definition to_any :: "('a \<Rightarrow> bool) \<Rightarrow> 'a \<Rightarrow> 'a any" where
  "to_any isnil x = (if isnil x then Nil else Boxed x)"

abbreviation keyAny :: "('k, 'v) type_args \<Rightarrow> 'k \<Rightarrow> 'k any" where
  "keyAny T k \<equiv> to_any (nilK T) k"

abbreviation valAny :: "('k, 'v) type_args \<Rightarrow> 'v \<Rightarrow> 'v any" where
  "valAny T v \<equiv> to_any (nilV T) v"

text \<open>
  The type assertion \<open>x.(T)\<close> in its single-result form: panics on the nil interface
  value, otherwise yields the boxed value.
\<close>

fun type_assert :: "'a any \<Rightarrow> panic + 'a" where
  "type_assert Nil = Inl NilInterfaceConversion"
| "type_assert (Boxed x) = Inr x"

text \<open>
  \<open>a == b\<close> on two values of type \<open>any\<close> of comparable dynamic types: nil equals nil only,
  and boxed values are equal when they are the same value and that value equals itself.
\<close>

fun any_eq :: "('a \<Rightarrow> bool) \<Rightarrow> 'a any \<Rightarrow> 'a any \<Rightarrow> bool" where
  "any_eq nan Nil Nil = True"
| "any_eq nan (Boxed x) (Boxed y) = (x = y \<and> \<not> nan x)"
| "any_eq nan Nil (Boxed y) = False"
| "any_eq nan (Boxed x) Nil = False"

abbreviation key_eq :: "('k, 'v) type_args \<Rightarrow> 'k any \<Rightarrow> 'k any \<Rightarrow> bool" where
  "key_eq T a b \<equiv> any_eq (nanK T) a b"

text \<open>\<open>a == b\<close> on two values held by the map, which may be of uncomparable types.\<close>

fun val_eq :: "('k, 'v) type_args \<Rightarrow> 'v any \<Rightarrow> 'v any \<Rightarrow> panic + bool" where
  "val_eq T (Boxed x) (Boxed y) =
     (if uncomparableV T x y then Inl UncomparableType else Inr (any_eq (nanV T) (Boxed x) (Boxed y)))"
| "val_eq T Nil b = Inr (any_eq (nanV T) Nil b)"
| "val_eq T (Boxed x) Nil = Inr (any_eq (nanV T) (Boxed x) Nil)"

subsection \<open>\<open>sync.Map\<close> of the Go standard library\<close>

text \<open>
  The standard library's \<open>sync.Map\<close> is not part of the repository; it is modelled from its
  documented behaviour. The state is the list of its entries, in the order in which a
  traversal observes them (Go leaves that order unspecified; any list is a possible order).
  Keys and values are of type \<open>any\<close>. A key is found by \<open>==\<close>, so an entry whose key is not
  equal to itself is never found, replaced or deleted, and every store under such a key
  adds an entry.
\<close>

type_synonym ('k, 'v) smap = "('k any \<times> 'v any) list"

fun sm_find :: "('k, 'v) type_args \<Rightarrow> ('k, 'v) smap \<Rightarrow> 'k any \<Rightarrow> 'v any option" where
  "sm_find T [] key = None"
| "sm_find T ((k, v) # d) key = (if key_eq T k key then Some v else sm_find T d key)"

fun sm_put :: "('k, 'v) type_args \<Rightarrow> ('k, 'v) smap \<Rightarrow> 'k any \<Rightarrow> 'v any \<Rightarrow> ('k, 'v) smap" where
  "sm_put T [] key val = [(key, val)]"
| "sm_put T ((k, v) # d) key val =
     (if key_eq T k key then (k, val) # d else (k, v) # sm_put T d key val)"

definition sm_remove :: "('k, 'v) type_args \<Rightarrow> ('k, 'v) smap \<Rightarrow> 'k any \<Rightarrow> ('k, 'v) smap" where
  "sm_remove T d key = filter (\<lambda>(k, v). \<not> key_eq T k key) d"

text \<open>\<open>Load(key any) (value any, ok bool)\<close>: nil and false when the key is absent.\<close>

definition sm_Load :: "('k, 'v) type_args \<Rightarrow> ('k, 'v) smap \<Rightarrow> 'k any \<Rightarrow> 'v any \<times> bool" where
  "sm_Load T d key = (case sm_find T d key of None \<Rightarrow> (Nil, False) | Some v \<Rightarrow> (v, True))"

text \<open>\<open>Store(key, value any)\<close>: replaces the value of a present key, adds an absent one.\<close>

definition sm_Store ::
  "('k, 'v) type_args \<Rightarrow> ('k, 'v) smap \<Rightarrow> 'k any \<Rightarrow> 'v any \<Rightarrow> ('k, 'v) smap" where
  "sm_Store T d key val = sm_put T d key val"

text \<open>\<open>LoadOrStore(key, value any) (actual any, loaded bool)\<close>.\<close>

definition sm_LoadOrStore ::
  "('k, 'v) type_args \<Rightarrow> ('k, 'v) smap \<Rightarrow> 'k any \<Rightarrow> 'v any
     \<Rightarrow> ('v any \<times> bool) \<times> ('k, 'v) smap" where
  "sm_LoadOrStore T d key val =
     (case sm_find T d key of
        Some a \<Rightarrow> ((a, True), d)
      | None \<Rightarrow> ((val, False), sm_put T d key val))"

text \<open>\<open>LoadAndDelete(key any) (value any, loaded bool)\<close>: nil and false when absent.\<close>

definition sm_LoadAndDelete ::
  "('k, 'v) type_args \<Rightarrow> ('k, 'v) smap \<Rightarrow> 'k any \<Rightarrow> ('v any \<times> bool) \<times> ('k, 'v) smap" where
  "sm_LoadAndDelete T d key =
     (case sm_find T d key of
        None \<Rightarrow> ((Nil, False), d)
      | Some v \<Rightarrow> ((v, True), sm_remove T d key))"

text \<open>\<open>Delete(key any)\<close> is \<open>LoadAndDelete\<close> with the results dropped.\<close>

definition sm_Delete :: "('k, 'v) type_args \<Rightarrow> ('k, 'v) smap \<Rightarrow> 'k any \<Rightarrow> ('k, 'v) smap" where
  "sm_Delete T d key = snd (sm_LoadAndDelete T d key)"

text \<open>
  \<open>Swap(key, value any) (previous any, loaded bool)\<close>: stores the value in either case;
  the previous value is nil and \<open>loaded\<close> is false when the key was absent.
\<close>

definition sm_Swap ::
  "('k, 'v) type_args \<Rightarrow> ('k, 'v) smap \<Rightarrow> 'k any \<Rightarrow> 'v any
     \<Rightarrow> ('v any \<times> bool) \<times> ('k, 'v) smap" where
  "sm_Swap T d key val =
     (case sm_find T d key of
        None \<Rightarrow> ((Nil, False), sm_put T d key val)
      | Some p \<Rightarrow> ((p, True), sm_put T d key val))"


text \<open>\<open>CompareAndDelete(key, old any) (deleted bool)\<close>, likewise.\<close>

definition sm_CompareAndDelete ::
  "('k, 'v) type_args \<Rightarrow> ('k, 'v) smap \<Rightarrow> 'k any \<Rightarrow> 'v any
     \<Rightarrow> (panic + bool) \<times> ('k, 'v) smap" where
  "sm_CompareAndDelete T d key old =
     (case sm_find T d key of
        None \<Rightarrow> (Inr False, d)
      | Some v \<Rightarrow>
          (case val_eq T v old of
             Inl p \<Rightarrow> (Inl p, d)
           | Inr same \<Rightarrow> if same then (Inr True, sm_remove T d key) else (Inr False, d)))"

text \<open>
  \<open>Range(f func(key, value any) bool)\<close>. The callback is a closure: it may change the
  variables it captures (the component \<open>'s\<close>) and the map itself. The traversal goes
  through the entries that were present when it started, each once. An entry deleted
  before its turn is skipped, and the value passed is the one stored when the entry is
  reached; an entry whose key is not equal to itself cannot have been deleted or
  replaced, and is passed as it was. The traversal stops when the callback returns false.
  A panic of the callback ends the traversal and propagates. Entries that the callback
  adds during the traversal are not visited by the model (\<open>sync.Map\<close> may or may not
  visit them); no callback of \<open>map.go\<close> adds entries.
\<close>

type_synonym ('k, 'v, 's) world = "('k, 'v) smap \<times> 's"

type_synonym ('k, 'v, 's) visitor =
  "'k any \<Rightarrow> 'v any \<Rightarrow> ('k, 'v, 's) world \<Rightarrow> (panic + bool) \<times> ('k, 'v, 's) world"

fun range_loop ::
  "('k, 'v) type_args \<Rightarrow> ('k, 'v) smap \<Rightarrow> ('k, 'v, 's) visitor \<Rightarrow> ('k, 'v, 's) world
     \<Rightarrow> (panic + unit) \<times> ('k, 'v, 's) world"
where
  "range_loop T [] f w = (Inr (), w)"
| "range_loop T ((key, val0) # entries) f w =
     (case (if key_eq T key key then sm_find T (fst w) key else Some val0) of
        None \<Rightarrow> range_loop T entries f w
      | Some val \<Rightarrow>
          (case f key val w of
             (Inl p, w') \<Rightarrow> (Inl p, w')
           | (Inr continue, w') \<Rightarrow>
               if continue then range_loop T entries f w' else (Inr (), w')))"

definition sm_Range ::
  "('k, 'v) type_args \<Rightarrow> ('k, 'v) smap \<Rightarrow> ('k, 'v, 's) visitor \<Rightarrow> 's
     \<Rightarrow> (panic + unit) \<times> ('k, 'v, 's) world" where
  "sm_Range T d f s = range_loop T d f (d, s)"

subsection \<open>The methods of \<open>Map[K, V]\<close>\<close>

text \<open>
  Each method takes the type arguments \<open>T\<close> of the instantiation and the state \<open>m\<close> of
  \<open>data\<close>. A method that only reads returns its result; a method that writes returns its
  result and the new state. A result is \<open>Inl\<close> of the panic when the method panics; the
  state returned with it is the state at the moment of the panic.
\<close>

definition Range ::
  "('k, 'v) type_args \<Rightarrow> ('k, 'v) smap
     \<Rightarrow> ('k \<Rightarrow> 'v \<Rightarrow> ('k, 'v, 's) world \<Rightarrow> bool \<times> ('k, 'v, 's) world) \<Rightarrow> 's
     \<Rightarrow> (panic + unit) \<times> ('k, 'v, 's) world" where
  "Range T m f s =
     sm_Range T m
       (\<lambda>key val w.
          case type_assert key of
            Inl p \<Rightarrow> (Inl p, w)
          | Inr k \<Rightarrow>
              (case type_assert val of
                 Inl p \<Rightarrow> (Inl p, w)
               | Inr v \<Rightarrow> (case f k v w of (continue, w') \<Rightarrow> (Inr continue, w'))))
       s"

text \<open>The named result \<open>value V\<close> of \<open>Load\<close> holds the zero value of \<open>V\<close> on entry.\<close>

definition Load :: "('k, 'v) type_args \<Rightarrow> ('k, 'v) smap \<Rightarrow> 'k \<Rightarrow> panic + ('v \<times> bool)" where
  "Load T m key =
     (case sm_Load T m (keyAny T key) of
        (v, ok) \<Rightarrow>
          if \<not> ok then Inr (zeroV T, ok)
          else (case type_assert v of Inl p \<Rightarrow> Inl p | Inr x \<Rightarrow> Inr (x, ok)))"

definition Get :: "('k, 'v) type_args \<Rightarrow> ('k, 'v) smap \<Rightarrow> 'k \<Rightarrow> panic + 'v" where
  "Get T m key = (case Load T m key of Inl p \<Rightarrow> Inl p | Inr (val, _) \<Rightarrow> Inr val)"

definition Has :: "('k, 'v) type_args \<Rightarrow> ('k, 'v) smap \<Rightarrow> 'k \<Rightarrow> bool" where
  "Has T m key = (case sm_Load T m (keyAny T key) of (_, ok) \<Rightarrow> ok)"

definition LoadAndDelete ::
  "('k, 'v) type_args \<Rightarrow> ('k, 'v) smap \<Rightarrow> 'k \<Rightarrow> (panic + ('v \<times> bool)) \<times> ('k, 'v) smap" where
  "LoadAndDelete T m key =
     (case sm_LoadAndDelete T m (keyAny T key) of
        ((v, loaded), m') \<Rightarrow>
          if \<not> loaded then (Inr (zeroV T, loaded), m')
          else (case type_assert v of
                  Inl p \<Rightarrow> (Inl p, m')
                | Inr x \<Rightarrow> (Inr (x, loaded), m')))"

definition Store :: "('k, 'v) type_args \<Rightarrow> ('k, 'v) smap \<Rightarrow> 'k \<Rightarrow> 'v \<Rightarrow> ('k, 'v) smap" where
  "Store T m key val = sm_Store T m (keyAny T key) (valAny T val)"

definition LoadOrStore ::
  "('k, 'v) type_args \<Rightarrow> ('k, 'v) smap \<Rightarrow> 'k \<Rightarrow> 'v
     \<Rightarrow> (panic + ('v \<times> bool)) \<times> ('k, 'v) smap" where
  "LoadOrStore T m key val =
     (case sm_LoadOrStore T m (keyAny T key) (valAny T val) of
        ((a, loaded), m') \<Rightarrow>
          (case type_assert a of
             Inl p \<Rightarrow> (Inl p, m')
           | Inr x \<Rightarrow> (Inr (x, loaded), m')))"

definition GetOrStore ::
  "('k, 'v) type_args \<Rightarrow> ('k, 'v) smap \<Rightarrow> 'k \<Rightarrow> 'v \<Rightarrow> (panic + 'v) \<times> ('k, 'v) smap" where
  "GetOrStore T m key val =
     (case sm_LoadOrStore T m (keyAny T key) (valAny T val) of
        ((a, _), m') \<Rightarrow> (type_assert a, m'))"

definition Delete :: "('k, 'v) type_args \<Rightarrow> ('k, 'v) smap \<Rightarrow> 'k \<Rightarrow> ('k, 'v) smap" where
  "Delete T m key = sm_Delete T m (keyAny T key)"

definition Swap ::
  "('k, 'v) type_args \<Rightarrow> ('k, 'v) smap \<Rightarrow> 'k \<Rightarrow> 'v
     \<Rightarrow> (panic + ('v \<times> bool)) \<times> ('k, 'v) smap" where
  "Swap T m key new =
     (case sm_Swap T m (keyAny T key) (valAny T new) of
        ((a, loaded), m') \<Rightarrow>
          (case type_assert a of
             Inl p \<Rightarrow> (Inl p, m')
           | Inr x \<Rightarrow> (Inr (x, loaded), m')))"


definition CompareAndDelete ::
  "('k, 'v) type_args \<Rightarrow> ('k, 'v) smap \<Rightarrow> 'k \<Rightarrow> 'v \<Rightarrow> (panic + bool) \<times> ('k, 'v) smap" where
  "CompareAndDelete T m key val = sm_CompareAndDelete T m (keyAny T key) (valAny T val)"

text \<open>\<open>m.Store(key, f(m.Get(key)))\<close>: the read, then \<open>f\<close>, then the store.\<close>

definition Compute ::
  "('k, 'v) type_args \<Rightarrow> ('k, 'v) smap \<Rightarrow> 'k \<Rightarrow> ('v \<Rightarrow> 'v)
     \<Rightarrow> (panic + unit) \<times> ('k, 'v) smap" where
  "Compute T m key f =
     (case Get T m key of
        Inl p \<Rightarrow> (Inl p, m)
      | Inr old \<Rightarrow> (Inr (), Store T m key (f old)))"

definition ComputeAndGet ::
  "('k, 'v) type_args \<Rightarrow> ('k, 'v) smap \<Rightarrow> 'k \<Rightarrow> ('v \<Rightarrow> 'v)
     \<Rightarrow> (panic + 'v) \<times> ('k, 'v) smap" where
  "ComputeAndGet T m key f =
     (case Get T m key of
        Inl p \<Rightarrow> (Inl p, m)
      | Inr old \<Rightarrow> GetOrStore T m key (f old))"

definition ComputeAndLoad ::
  "('k, 'v) type_args \<Rightarrow> ('k, 'v) smap \<Rightarrow> 'k \<Rightarrow> ('v \<Rightarrow> 'v)
     \<Rightarrow> (panic + ('v \<times> bool)) \<times> ('k, 'v) smap" where
  "ComputeAndLoad T m key f =
     (case Get T m key of
        Inl p \<Rightarrow> (Inl p, m)
      | Inr old \<Rightarrow> LoadOrStore T m key (f old))"





text \<open>\<open>strings.Join(elems, sep)\<close>.\<close>

fun Join :: "string list \<Rightarrow> string \<Rightarrow> string" where
  "Join [] sep = []"
| "Join [x] sep = x"
| "Join (x # y # ys) sep = x @ sep @ Join (y # ys) sep"

text \<open>
  \<open>String\<close>. The parameters \<open>showK\<close> and \<open>showV\<close> are the \<open>%v\<close> renderings of \<open>fmt\<close> for the
  types \<open>K\<close> and \<open>V\<close>.
\<close>

definition String ::
  "('k \<Rightarrow> string) \<Rightarrow> ('v \<Rightarrow> string) \<Rightarrow> ('k, 'v) type_args \<Rightarrow> ('k, 'v) smap
     \<Rightarrow> panic + string" where
  "String showK showV T m =
     (case Range T m
             (\<lambda>key val (d, toPrint).
                (True, (d, toPrint @ [showK key @ '': '' @ showV val])))
             [] of
        (Inl p, _) \<Rightarrow> Inl p
      | (Inr _, (_, toPrint)) \<Rightarrow> Inr (''{'' @ Join toPrint '', '' @ ''}''))"

subsection \<open>Instantiations used in examples\<close>

text \<open>
  \<open>K\<close> and \<open>V\<close> non-interface types whose values all equal themselves (\<open>string\<close>, \<open>int\<close>,
  \<open>bool\<close>), \<open>z\<close> the zero value of \<open>V\<close>: for instance \<open>Map[string, int]\<close> is \<open>plain 0\<close>.
\<close>

definition plain :: "'v \<Rightarrow> ('k, 'v) type_args" where
  "plain z =
     \<lparr>nilK = (\<lambda>k. False), nanK = (\<lambda>k. False), nilV = (\<lambda>v. False), nanV = (\<lambda>v. False),
      uncomparableV = (\<lambda>v w. False), zeroV = z\<rparr>"

text \<open>
  \<open>V\<close> an interface type such as \<open>any\<close>, holding nil (\<open>None\<close>) or a value of a comparable
  type whose values equal themselves (\<open>Some x\<close>); \<open>K\<close> as in \<open>plain\<close>. The zero value of an
  interface type is nil.
\<close>

definition interface_values :: "('k, 'd option) type_args" where
  "interface_values =
     \<lparr>nilK = (\<lambda>k. False), nanK = (\<lambda>k. False), nilV = (\<lambda>v. v = None), nanV = (\<lambda>v. False),
      uncomparableV = (\<lambda>v w. False), zeroV = None\<rparr>"

text \<open>A \<open>float64\<close>: the NaN or a number (infinities are not needed here).\<close>

datatype float64 = NaN | Num real

text \<open>\<open>K = float64\<close>; \<open>V\<close> as in \<open>plain\<close>, with zero value \<open>z\<close>.\<close>

definition float64_keys :: "'v \<Rightarrow> (float64, 'v) type_args" where
  "float64_keys z =
     \<lparr>nilK = (\<lambda>k. False), nanK = (\<lambda>k. k = NaN), nilV = (\<lambda>v. False), nanV = (\<lambda>v. False),
      uncomparableV = (\<lambda>v w. False), zeroV = z\<rparr>"


text \<open>
  The state of a \<open>Map[K, V]\<close> that holds the associations \<open>kvs\<close>, listed in the order in
  which a traversal observes them.
\<close>

definition typed_state :: "('k, 'v) type_args \<Rightarrow> ('k \<times> 'v) list \<Rightarrow> ('k, 'v) smap" where
  "typed_state T kvs = map (\<lambda>(k, v). (keyAny T k, valAny T v)) kvs"

section \<open>Properties\<close>

text \<open>
  In the statements below, ``\<open>k\<close> is present with value \<open>v\<close>'' is
  \<open>sm_find T m (keyAny T k) = Some (valAny T v)\<close>, ``\<open>k\<close> is absent'' is
  \<open>sm_find T m (keyAny T k) = None\<close>, and ``\<open>k\<close> equals itself'' is
  \<open>key_eq T (keyAny T k) (keyAny T k)\<close>.
\<close>

subsection \<open>Auxiliary facts about comparisons and the underlying map\<close>

lemma key_eq_refl_iff: "any_eq nan key key \<Longrightarrow> any_eq nan k key = (k = key)"
  by (cases k; cases key) auto

lemma key_eq_irrefl: "\<not> any_eq nan key key \<Longrightarrow> any_eq nan k key = False"
  by (cases k; cases key) auto

lemma sm_find_refl: "key_eq T key key \<Longrightarrow> sm_find T d key = map_of d key"
  by (induction d) (auto simp: key_eq_refl_iff)

lemma sm_find_irrefl: "\<not> key_eq T key key \<Longrightarrow> sm_find T d key = None"
  by (induction d) (auto simp: key_eq_irrefl)


lemma sm_put_refl: "key_eq T key key \<Longrightarrow> sm_put T d key val = AList.update key val d"
  by (induction d) (auto simp: key_eq_refl_iff)

lemma sm_put_irrefl: "\<not> key_eq T key key \<Longrightarrow> sm_put T d key val = d @ [(key, val)]"
  by (induction d) (auto simp: key_eq_irrefl)

lemma sm_remove_refl: "key_eq T key key \<Longrightarrow> sm_remove T d key = AList.delete key d"
  by (induction d) (auto simp: sm_remove_def key_eq_refl_iff)

lemma sm_remove_irrefl: "\<not> key_eq T key key \<Longrightarrow> sm_remove T d key = d"
  by (induction d) (auto simp: sm_remove_def key_eq_irrefl)

lemma sm_find_put_refl:
  "key_eq T key key \<Longrightarrow> sm_find T (sm_put T d key val) = (sm_find T d)(key \<mapsto> val)"
proof
  fix key'
  assume self: "key_eq T key key"
  show "sm_find T (sm_put T d key val) key' = ((sm_find T d)(key \<mapsto> val)) key'"
  proof (cases "key_eq T key' key'")
    case True
    with self show ?thesis by (simp add: sm_find_refl sm_put_refl update_conv')
  next
    case False
    with self have "key' \<noteq> key" by auto
    with False show ?thesis by (simp add: sm_find_irrefl)
  qed
qed

lemma sm_find_put_same: "key_eq T key key \<Longrightarrow> sm_find T (sm_put T d key val) key = Some val"
  by (simp add: sm_find_put_refl)

lemma sm_find_remove: "sm_find T (sm_remove T d key) = (sm_find T d)(key := None)"
proof
  fix key'
  show "sm_find T (sm_remove T d key) key' = ((sm_find T d)(key := None)) key'"
  proof (cases "key_eq T key key")
    case self: True
    show ?thesis
    proof (cases "key_eq T key' key'")
      case True
      with self show ?thesis by (simp add: sm_find_refl sm_remove_refl delete_conv')
    next
      case False
      then show ?thesis by (simp add: sm_find_irrefl)
    qed
  next
    case False
    then show ?thesis by (simp add: sm_remove_irrefl sm_find_irrefl)
  qed
qed

lemma sm_remove_absent: "sm_find T d key = None \<Longrightarrow> sm_remove T d key = d"
proof (cases "key_eq T key key")
  case True
  assume "sm_find T d key = None"
  with True have "key \<notin> fst ` set d" by (simp add: sm_find_refl map_of_eq_None_iff)
  with True show ?thesis by (simp add: sm_remove_refl)
next
  case False
  then show ?thesis by (simp add: sm_remove_irrefl)
qed

lemma sm_Delete_eq: "sm_Delete T d key = sm_remove T d key"
  by (simp add: sm_Delete_def sm_LoadAndDelete_def sm_remove_absent split: option.splits)

lemma Load_present:
  "sm_find T m (keyAny T k) = Some (Boxed v) \<Longrightarrow> Load T m k = Inr (v, True)"
  by (simp add: Load_def sm_Load_def)

lemma Load_absent:
  "sm_find T m (keyAny T k) = None \<Longrightarrow> Load T m k = Inr (zeroV T, False)"
  by (simp add: Load_def sm_Load_def)

lemma Load_nil:
  "sm_find T m (keyAny T k) = Some Nil \<Longrightarrow> Load T m k = Inl NilInterfaceConversion"
  by (simp add: Load_def sm_Load_def)

lemma Has_iff_found: "Has T m k \<longleftrightarrow> sm_find T m (keyAny T k) \<noteq> None"
  by (simp add: Has_def sm_Load_def split: option.splits)

lemma Get_present:
  "sm_find T m (keyAny T k) = Some (Boxed v) \<Longrightarrow> Get T m k = Inr v"
  by (simp add: Get_def Load_present)

lemma Get_absent:
  "sm_find T m (keyAny T k) = None \<Longrightarrow> Get T m k = Inr (zeroV T)"
  by (simp add: Get_def Load_absent)

lemma valAny_non_nil: "\<not> nilV T v \<Longrightarrow> valAny T v = Boxed v"
  by (simp add: to_any_def)


subsection \<open>Swap\<close>

text \<open>
  On a present key with a non-nil value \<open>Swap\<close> stores the new value and returns the
  previous one with \<open>true\<close>.
\<close>

lemma Swap_present:
  "sm_find T m (keyAny T k) = Some (Boxed v) \<Longrightarrow>
   Swap T m k new = (Inr (v, True), Store T m k new)"
  by (simp add: Swap_def sm_Swap_def Store_def sm_Store_def)

text \<open>
  On an absent key \<open>sync.Map.Swap\<close> returns the nil interface value and \<open>false\<close>, and the
  unguarded assertion \<open>a.(V)\<close> of \<open>Swap\<close> panics, after the new value has been stored.
  \<open>Load\<close> and \<open>LoadAndDelete\<close> test the flag before they assert; \<open>Swap\<close> does not.
\<close>

lemma Swap_absent:
  "sm_find T m (keyAny T k) = None \<Longrightarrow>
   Swap T m k new = (Inl NilInterfaceConversion, Store T m k new)"
  by (simp add: Swap_def sm_Swap_def Store_def sm_Store_def)

text \<open>
  C1. \<open>Swap(k, new)\<close> on a map without \<open>k\<close> is claimed to return the zero value of \<open>V\<close>
  and \<open>false\<close>. On the empty \<open>Map[string, int]\<close>, \<open>Swap("a", 1)\<close> panics instead (and leaves
  \<open>"a"\<close> associated with \<open>1\<close>).
\<close>

theorem Swap_on_empty_map_panics:
  "Swap (plain 0) ([] :: (string, int) smap) ''a'' 1 =
     (Inl NilInterfaceConversion, [(Boxed ''a'', Boxed 1)])"
  by (simp add: Swap_def sm_Swap_def plain_def to_any_def)

subsection \<open>CompareAndSwap\<close>




subsection \<open>LoadOrStore\<close>

text \<open>
  For values other than the nil value of an interface type: on a present key
  \<open>LoadOrStore\<close> returns the value held and \<open>true\<close> and changes nothing; on an absent key
  it stores the given value and returns it with \<open>false\<close>.
\<close>

lemma LoadOrStore_non_nil:
  "(sm_find T m (keyAny T k) = Some (Boxed a) \<longrightarrow>
      LoadOrStore T m k v = (Inr (a, True), m)) \<and>
   (sm_find T m (keyAny T k) = None \<and> \<not> nilV T v \<longrightarrow>
      LoadOrStore T m k v = (Inr (v, False), Store T m k v))"
  by (simp add: LoadOrStore_def sm_LoadOrStore_def Store_def sm_Store_def valAny_non_nil)

text \<open>
  C3. \<open>LoadOrStore(k, v)\<close> on a map without \<open>k\<close> is claimed to store \<open>v\<close> and return
  \<open>(v, false)\<close>. On the empty \<open>Map[string, any]\<close>, \<open>LoadOrStore("a", nil)\<close> stores the nil
  interface value and then panics in \<open>a.(V)\<close>.
\<close>

theorem LoadOrStore_nil_value_panics:
  "LoadOrStore interface_values ([] :: (string, int option) smap) ''a'' None =
     (Inl NilInterfaceConversion, [(Boxed ''a'', Nil)])"
  by (simp add: LoadOrStore_def sm_LoadOrStore_def interface_values_def to_any_def)

subsection \<open>LoadAndDelete\<close>

text \<open>
  On a present key with a non-nil value \<open>LoadAndDelete\<close> removes the key (and nothing
  else) and returns the value with \<open>true\<close>; on an absent key it returns the zero value and
  \<open>false\<close> and changes nothing.
\<close>

lemma LoadAndDelete_non_nil:
  "(sm_find T m (keyAny T k) = Some (Boxed v) \<longrightarrow>
      fst (LoadAndDelete T m k) = Inr (v, True) \<and>
      sm_find T (snd (LoadAndDelete T m k)) = (sm_find T m)(keyAny T k := None)) \<and>
   (sm_find T m (keyAny T k) = None \<longrightarrow>
      LoadAndDelete T m k = (Inr (zeroV T, False), m))"
  by (simp add: LoadAndDelete_def sm_LoadAndDelete_def sm_find_remove)

text \<open>
  C4. \<open>LoadAndDelete(k)\<close> on a map where \<open>k\<close> is present with value \<open>v\<close> is claimed to
  return \<open>(v, true)\<close>. On a \<open>Map[string, any]\<close>, after \<open>Store("a", nil)\<close> the key is present
  with the value nil, and \<open>LoadAndDelete("a")\<close> removes it and then panics in \<open>v.(V)\<close>.
\<close>

theorem LoadAndDelete_nil_value_panics:
  "Has interface_values (Store interface_values ([] :: (string, int option) smap) ''a'' None) ''a'' \<and>
   LoadAndDelete interface_values
       (Store interface_values ([] :: (string, int option) smap) ''a'' None) ''a''
     = (Inl NilInterfaceConversion, [])"
  by (simp add: Has_def sm_Load_def LoadAndDelete_def sm_LoadAndDelete_def sm_remove_def
      Store_def sm_Store_def interface_values_def to_any_def)

subsection \<open>Store and Load\<close>

text \<open>
  As stated, C5 fails on \<open>Map[float64, int]\<close>: after \<open>Store(NaN, 1)\<close>, \<open>Load(NaN)\<close> returns
  \<open>(0, false)\<close>, since no key is \<open>==\<close> to a NaN.
\<close>

theorem Store_then_Load_NaN_counterexample:
  "Load (float64_keys 0) (Store (float64_keys (0::int)) [] NaN 1) NaN = Inr (0, False)"
  by (simp add: Load_def sm_Load_def Store_def sm_Store_def float64_keys_def to_any_def)

text \<open>
  C5, amended. For a key \<open>k\<close> that equals itself and values other than the nil value of
  an interface type: after \<open>Store(k, v)\<close>, \<open>Load(k)\<close> returns \<open>(v, true)\<close>; after
  \<open>Store(k, v1)\<close> followed by \<open>Store(k, v2)\<close>, \<open>Load(k)\<close> returns \<open>(v2, true)\<close>.
\<close>

theorem Store_then_Load:
  assumes "key_eq T (keyAny T k) (keyAny T k)"
  shows
    "(\<not> nilV T v \<longrightarrow> Load T (Store T m k v) k = Inr (v, True)) \<and>
     (\<not> nilV T v2 \<longrightarrow> Load T (Store T (Store T m k v1) k v2) k = Inr (v2, True))"
  using assms
  by (simp add: Load_present Store_def sm_Store_def sm_find_put_same valAny_non_nil)

theorem Store_then_Load_witness:
  "Load (plain 0) (Store (plain 0) [] ''a'' (1::int)) ''a'' = Inr (1, True) \<and>
   Load (plain 0) (Store (plain 0) (Store (plain 0) [] ''a'' (1::int)) ''a'' 2) ''a''
     = Inr (2, True) \<and>
   Load interface_values (Store interface_values [] ''a'' (Some True)) ''a''
     = Inr (Some True, True)"
proof -
  have h: "key_eq (plain 0 :: (string, int) type_args) (keyAny (plain 0) ''a'')
             (keyAny (plain 0) ''a'')"
    by (simp add: plain_def to_any_def)
  have h': "key_eq (interface_values :: (string, bool option) type_args)
              (keyAny interface_values ''a'') (keyAny interface_values ''a'')"
    by (simp add: interface_values_def to_any_def)
  show ?thesis
    using Store_then_Load [OF h, of 1 "[]" 2 1]
      Store_then_Load [OF h', of "Some True" "[]" "Some True" "Some True"]
    by (simp add: plain_def interface_values_def)
qed

subsection \<open>Clear\<close>








subsection \<open>Delete\<close>

text \<open>
  C7. \<open>Delete(k)\<close> removes \<open>k\<close> and nothing else; it leaves the map as it is when \<open>k\<close> is
  absent (its type has no failure); and two calls in succession leave the map in the same
  state as one.
\<close>

theorem Delete_idempotent:
  "sm_find T (Delete T m k) = (sm_find T m)(keyAny T k := None) \<and>
   (sm_find T m (keyAny T k) = None \<longrightarrow> Delete T m k = m) \<and>
   Delete T (Delete T m k) k = Delete T m k"
proof -
  have gone: "sm_find T (sm_remove T m (keyAny T k)) (keyAny T k) = None"
    by (simp add: sm_find_remove)
  show ?thesis
    using sm_remove_absent [OF gone]
    by (simp add: Delete_def sm_Delete_eq sm_find_remove sm_remove_absent)
qed

theorem Delete_idempotent_witness:
  "Delete (plain 0) [(Boxed ''b'', Boxed (2::int))] ''a'' = [(Boxed ''b'', Boxed 2)] \<and>
   Delete (plain 0) (Delete (plain 0) [(Boxed ''a'', Boxed (1::int)), (Boxed ''b'', Boxed 2)] ''a'') ''a''
     = Delete (plain 0) [(Boxed ''a'', Boxed 1), (Boxed ''b'', Boxed 2)] ''a''"
  using Delete_idempotent [of "plain 0" "[(Boxed ''b'', Boxed (2::int))]" "''a''"]
    Delete_idempotent [of "plain 0" "[(Boxed ''a'', Boxed (1::int)), (Boxed ''b'', Boxed 2)]" "''a''"]
  by (simp add: plain_def to_any_def)

subsection \<open>String\<close>

text \<open>
  On a state without nil keys or values every type assertion of \<open>Range\<close> succeeds, and
  the callback of \<open>String\<close> appends one rendering per association, in traversal order.
\<close>

lemma typed_state_non_nil:
  "\<forall>(k, v) \<in> set kvs. \<not> nilK T k \<and> \<not> nilV T v \<Longrightarrow>
   typed_state T kvs = map (\<lambda>(k, v). (Boxed k, Boxed v)) kvs"
  by (induction kvs) (auto simp: typed_state_def to_any_def)

lemma range_loop_renderings:
  assumes "\<forall>(k, v) \<in> set kvs.
             key_eq T (Boxed k) (Boxed k) \<longrightarrow> sm_find T d (Boxed k) = Some (Boxed v)"
  shows "range_loop T (map (\<lambda>(k, v). (Boxed k, Boxed v)) kvs)
           (\<lambda>key val w.
              case type_assert key of
                Inl p \<Rightarrow> (Inl p, w)
              | Inr k \<Rightarrow>
                  (case type_assert val of
                     Inl p \<Rightarrow> (Inl p, w)
                   | Inr v \<Rightarrow>
                       (case (case w of (d, toPrint) \<Rightarrow> (True, (d, toPrint @ [g k v]))) of
                          (continue, w') \<Rightarrow> (Inr continue, w'))))
           (d, acc)
         = (Inr (), (d, acc @ map (\<lambda>(k, v). g k v) kvs))"
  using assms
proof (induction kvs arbitrary: acc)
  case Nil
  then show ?case by simp
next
  case (Cons kv kvs)
  obtain k v where kv: "kv = (k, v)" by (cases kv)
  from Cons.prems kv have here:
    "key_eq T (Boxed k) (Boxed k) \<longrightarrow> sm_find T d (Boxed k) = Some (Boxed v)"
    by simp
  from Cons.prems have rest:
    "\<forall>(k, v) \<in> set kvs.
       key_eq T (Boxed k) (Boxed k) \<longrightarrow> sm_find T d (Boxed k) = Some (Boxed v)"
    by simp
  show ?case
    using Cons.IH [OF rest, of "acc @ [g k v]"] here kv by simp
qed

lemma String_non_nil:
  assumes "distinct (map fst kvs)"
    and "\<forall>(k, v) \<in> set kvs. \<not> nilK T k \<and> \<not> nilV T v"
  shows "String showK showV T (typed_state T kvs) =
           Inr (''{'' @ Join (map (\<lambda>(k, v). showK k @ '': '' @ showV v) kvs) '', '' @ ''}'')"
proof -
  let ?d = "map (\<lambda>(k, v). (Boxed k, Boxed v)) kvs"
  have state: "typed_state T kvs = ?d"
    using assms(2) by (rule typed_state_non_nil)
  have "map fst ?d = map Boxed (map fst kvs)"
    by (induction kvs) auto
  with assms(1) have "distinct (map fst ?d)"
    by (simp add: distinct_map inj_on_def)
  then have "\<forall>(k, v) \<in> set kvs. map_of ?d (Boxed k) = Some (Boxed v)"
    by auto
  then have found:
    "\<forall>(k, v) \<in> set kvs.
       key_eq T (Boxed k) (Boxed k) \<longrightarrow> sm_find T ?d (Boxed k) = Some (Boxed v)"
    by (auto simp: sm_find_refl)
  note run = range_loop_renderings [OF found, of "\<lambda>k v. showK k @ '': '' @ showV v" "[]"]
  show ?thesis
    unfolding String_def Range_def sm_Range_def state run by simp
qed

text \<open>
  C8. \<open>String()\<close> is claimed to render every map state. On a \<open>Map[string, any]\<close>, after
  \<open>Store("a", nil)\<close>, \<open>String()\<close> panics in the assertion \<open>value.(V)\<close> of \<open>Range\<close> instead of
  returning \<open>"{a: <nil>}"\<close>.
\<close>

theorem String_nil_value_panics:
  "String (\<lambda>s. s) (\<lambda>v. case v of None \<Rightarrow> ''<nil>'' | Some b \<Rightarrow> if b then ''true'' else ''false'')
     interface_values (Store interface_values [] ''a'' None)
   = Inl NilInterfaceConversion"
  by (simp add: String_def Range_def sm_Range_def Store_def sm_Store_def interface_values_def
      to_any_def)

subsection \<open>Compute\<close>

text \<open>
  As stated, C9 fails on \<open>Map[float64, int]\<close>: after \<open>Compute(NaN, f)\<close> with \<open>f\<close> adding 1
  on the empty map, \<open>Load(NaN)\<close> returns \<open>(0, false)\<close>, not \<open>(1, true)\<close>.
\<close>

theorem Compute_NaN_key_counterexample:
  "Load (float64_keys 0) (snd (Compute (float64_keys (0::int)) [] NaN (\<lambda>x. x + 1))) NaN
     = Inr (0, False)"
  by (simp add: Load_def sm_Load_def Compute_def Get_def Store_def sm_Store_def
      float64_keys_def to_any_def)

text \<open>
  C9, amended. For a key \<open>k\<close> that equals itself: \<open>Compute(k, f)\<close> returns normally and
  stores \<open>f\<close> of the value at \<open>k\<close> when that value is not nil, or \<open>f\<close> of the zero value of
  \<open>V\<close> when \<open>k\<close> is absent; when the result of \<open>f\<close> is not the nil value of an interface
  type, \<open>Load(k)\<close> afterwards returns that result and \<open>true\<close>.
\<close>

theorem Compute_then_Load:
  assumes "key_eq T (keyAny T k) (keyAny T k)"
  shows
    "(sm_find T m (keyAny T k) = Some (Boxed v) \<longrightarrow>
        Compute T m k f = (Inr (), Store T m k (f v)) \<and>
        (\<not> nilV T (f v) \<longrightarrow> Load T (snd (Compute T m k f)) k = Inr (f v, True))) \<and>
     (sm_find T m (keyAny T k) = None \<longrightarrow>
        Compute T m k f = (Inr (), Store T m k (f (zeroV T))) \<and>
        (\<not> nilV T (f (zeroV T)) \<longrightarrow>
           Load T (snd (Compute T m k f)) k = Inr (f (zeroV T), True)))"
  using assms
  by (simp add: Compute_def Get_present Get_absent Load_present Store_def sm_Store_def
      sm_find_put_same valAny_non_nil)

theorem Compute_then_Load_witness:
  "Load (plain 0) (snd (Compute (plain 0) [(Boxed ''a'', Boxed (5::int))] ''a'' (\<lambda>x. x + 1))) ''a''
     = Inr (6, True) \<and>
   Load (plain 0) (snd (Compute (plain (0::int)) [] ''a'' (\<lambda>x. x + 1))) ''a'' = Inr (1, True)"
proof -
  have h: "key_eq (plain 0 :: (string, int) type_args) (keyAny (plain 0) ''a'')
             (keyAny (plain 0) ''a'')"
    by (simp add: plain_def to_any_def)
  show ?thesis
    using Compute_then_Load [OF h, of "[(Boxed ''a'', Boxed 5)]" 5 "\<lambda>x. x + 1"]
      Compute_then_Load [OF h, of "[]" 5 "\<lambda>x. x + 1"]
    by (auto simp: plain_def to_any_def)
qed

subsection \<open>ComputeAndGet and ComputeAndLoad\<close>

text \<open>
  When \<open>k\<close> is present with a non-nil value \<open>v\<close>, \<open>ComputeAndGet(k, f)\<close> returns \<open>v\<close> and
  \<open>ComputeAndLoad(k, f)\<close> returns \<open>(v, true)\<close>, and both leave the map unchanged: the
  result of \<open>f\<close> is discarded.
\<close>

lemma ComputeAndGet_non_nil:
  "sm_find T m (keyAny T k) = Some (Boxed v) \<Longrightarrow>
   ComputeAndGet T m k f = (Inr v, m) \<and> ComputeAndLoad T m k f = (Inr (v, True), m)"
  by (simp add: ComputeAndGet_def ComputeAndLoad_def Get_present GetOrStore_def
      LoadOrStore_def sm_LoadOrStore_def)

text \<open>
  C10. \<open>ComputeAndGet(k, f)\<close> and \<open>ComputeAndLoad(k, f)\<close> on a map where \<open>k\<close> is present
  with value \<open>v\<close> are claimed to return \<open>v\<close> and \<open>(v, true)\<close>. On a \<open>Map[string, any]\<close>,
  after \<open>Store("a", nil)\<close> the key is present with the value nil, and both calls panic in
  the assertion \<open>v.(V)\<close> of \<open>Load\<close>, reached through \<open>Get\<close>.
\<close>

theorem ComputeAndGet_nil_value_panics:
  "Has interface_values (Store interface_values ([] :: (string, int option) smap) ''a'' None) ''a'' \<and>
   fst (ComputeAndGet interface_values
          (Store interface_values ([] :: (string, int option) smap) ''a'' None) ''a'' (\<lambda>v. v))
     = Inl NilInterfaceConversion \<and>
   fst (ComputeAndLoad interface_values
          (Store interface_values ([] :: (string, int option) smap) ''a'' None) ''a'' (\<lambda>v. v))
     = Inl NilInterfaceConversion"
  by (simp add: Has_def ComputeAndGet_def ComputeAndLoad_def Get_def Load_def sm_Load_def
      Store_def sm_Store_def interface_values_def to_any_def)

end
